theory Spec2Isabelle
  imports Complex_Main "HOL-Library.AList" "HOL-Library.Multiset"
begin

section \<open>Values, declarations and the options container\<close>

text \<open>
  The development follows the class \<open>Options\<close> of the options module (the second part of
  \<^verbatim>\<open>src/lib/models/types/type-parameter.ts\<close>). Every method becomes a function on an explicit
  container state; an exception becomes a value; the objects the code compares by reference
  carry an address.
\<close>

subsection \<open>JavaScript values\<close>

text \<open>
  Option values have the TypeScript type \<open>unknown\<close>. A number is NaN, an infinity or a
  finite value (the two zeros are one value, as \<open>===\<close> sees them); a container is an object
  with an address and its entries.
\<close>

type_synonym addr = nat

datatype jsnum = NaN | NegInfinity | PosInfinity | Finite rat

datatype jsval =
    JUndefined
  | JNull
  | JBool bool
  | JNumber jsnum
  | JString string
  | JObject addr "(string \<times> jsval) list"

text \<open>The operator \<open>===\<close>: primitives by value (NaN differs from itself), objects by address.\<close>

fun strict_equals :: "jsval \<Rightarrow> jsval \<Rightarrow> bool" where
  "strict_equals JUndefined JUndefined = True"
| "strict_equals JNull JNull = True"
| "strict_equals (JBool a) (JBool b) = (a = b)"
| "strict_equals (JNumber a) (JNumber b) = (a \<noteq> NaN \<and> b \<noteq> NaN \<and> a = b)"
| "strict_equals (JString a) (JString b) = (a = b)"
| "strict_equals (JObject a _) (JObject b _) = (a = b)"
| "strict_equals _ _ = False"

text \<open>
  \<open>String.prototype.toLowerCase\<close>, on strings of ASCII characters: the letters A to Z are
  mapped to a to z and every other character is kept.
\<close>

definition lower_char :: "char \<Rightarrow> char" where
  "lower_char c =
     (let n = (of_char c :: nat) in if 65 \<le> n \<and> n \<le> 90 then char_of (n + 32) else c)"

definition toLowerCase :: "string \<Rightarrow> string" where
  "toLowerCase s = map lower_char s"

subsection \<open>Results and errors\<close>

text \<open>
  A JavaScript \<open>Error\<close> is its message. A method that can throw and returns a value has the
  type \<open>error + 'a\<close> (\<open>Inl\<close> is the exception); a method that can throw after it has changed
  the container returns a \<open>completion\<close>, which keeps the state reached.
\<close>

datatype error = Error string

datatype 's completion = Returns 's | Throws error 's

fun state_of :: "'s completion \<Rightarrow> 's" where
  "state_of (Returns s) = s"
| "state_of (Throws _ s) = s"

fun thrown :: "'s completion \<Rightarrow> error option" where
  "thrown (Returns _) = None"
| "thrown (Throws e _) = Some e"

text \<open>
  Modelled from the spec: the class \<open>Result\<close> of the result module, which the options module
  imports and which is not among the sources. It is a closed two-variant outcome, \<open>Ok\<close> with
  a value or \<open>Err\<close> with an error; its \<open>match\<close> is a case distinction.
\<close>

datatype ('a, 'e) Result = Ok 'a | Err 'e

subsection \<open>Declarations and readers\<close>

datatype ParameterScope = TypeDoc | TypeScript

text \<open>
  The fields of \<open>DeclarationOption\<close> that the container reads. The field \<open>d_type\<close> stands
  for the type descriptor that only \<open>convert\<close> looks at. Declarations are objects, compared
  by reference and never modified (\<open>Readonly\<close>): the container stores addresses, and a heap
  \<open>h\<close> gives the declaration at each address.
\<close>

record 'k DeclarationOption =
  d_name :: string
  d_short :: "string option"
  d_type :: 'k
  d_scope :: "ParameterScope option"
  d_defaultValue :: jsval

type_synonym 'k heap = "addr \<Rightarrow> 'k DeclarationOption"

text \<open>
  The function \<open>convert\<close> of the declaration module is not among the sources. It is a
  parameter \<open>cv\<close> of every method that calls it: it takes a raw value and a declaration and
  gives the converted value or an error message.
\<close>

type_synonym 'k converter = "jsval \<Rightarrow> 'k DeclarationOption \<Rightarrow> (jsval, string) Result"

text \<open>
  An \<open>OptionsReader\<close>: \<open>r_read\<close> names its read operation, which the parameter \<open>run\<close> of
  \<open>read\<close> interprets.
\<close>

record 'r OptionsReader =
  r_priority :: int
  r_name :: string
  r_read :: 'r

text \<open>
  The container. \<open>_declarations\<close> is a JavaScript \<open>Map\<close>, kept as an association list in
  insertion order (\<open>AList.update\<close> replaces in place or appends, as \<open>Map.set\<close> does);
  \<open>_values\<close> and \<open>_compilerOptions\<close> are objects used as dictionaries, with keys other than
  the property names of \<open>Object.prototype\<close>; \<open>o_logger\<close> holds the messages passed to
  \<open>_logger.error\<close>, oldest first.
\<close>

record 'r Options =
  o_readers :: "'r OptionsReader list"
  o_declarations :: "(string \<times> addr) list"
  o_values :: "string \<rightharpoonup> jsval"
  o_compilerOptions :: "string \<rightharpoonup> jsval"
  o_logger :: "string list"

definition new_Options :: "'r Options" where
  "new_Options =
     \<lparr>o_readers = [], o_declarations = [], o_values = Map.empty,
      o_compilerOptions = Map.empty, o_logger = []\<rparr>"

text \<open>Reading a property of an object: \<open>undefined\<close> when the property is absent.\<close>

definition property :: "(string \<rightharpoonup> jsval) \<Rightarrow> string \<Rightarrow> jsval" where
  "property bag k = (case bag k of None \<Rightarrow> JUndefined | Some v \<Rightarrow> v)"

subsection \<open>Lookups\<close>

definition getDeclaration :: "'r Options \<Rightarrow> string \<Rightarrow> addr option" where
  "getDeclaration s name = map_of (o_declarations s) (toLowerCase name)"

definition tryGetValue :: "'k heap \<Rightarrow> 'r Options \<Rightarrow> string \<Rightarrow> (jsval, error) Result" where
  "tryGetValue h s name =
     (case getDeclaration s name of
        None \<Rightarrow> Err (Error (''Unknown option '' @ [CHR 0x27] @ name @ [CHR 0x27]))
      | Some d \<Rightarrow>
          if d_scope (h d) = Some TypeScript
          then Err (Error ''TypeScript options must be fetched with getCompilerOptions.'')
          else Ok (property (o_values s) (d_name (h d))))"

definition getValue :: "'k heap \<Rightarrow> 'r Options \<Rightarrow> string \<Rightarrow> error + jsval" where
  "getValue h s name = (case tryGetValue h s name of Ok v \<Rightarrow> Inr v | Err e \<Rightarrow> Inl e)"

text \<open>
  \<open>isDefault\<close> evaluates \<open>getValue\<close> first, so its exception leaves before the declaration
  is dereferenced; after it, \<open>getDeclaration(name)!\<close> is the declaration \<open>getValue\<close> found.
\<close>

definition isDefault :: "'k heap \<Rightarrow> 'r Options \<Rightarrow> string \<Rightarrow> error + bool" where
  "isDefault h s name =
     (case getValue h s name of
        Inl e \<Rightarrow> Inl e
      | Inr v \<Rightarrow>
          (case getDeclaration s name of
             None \<Rightarrow> Inl (Error ''TypeError: Cannot read property of undefined'')
           | Some d \<Rightarrow> Inr (strict_equals v (d_defaultValue (h d)))))"

subsection \<open>Setting values\<close>

definition setValue ::
  "'k heap \<Rightarrow> 'k converter \<Rightarrow> string \<Rightarrow> jsval \<Rightarrow> 'r Options \<Rightarrow> (unit, error) Result \<times> 'r Options"
where
  "setValue h cv name v s =
     (case getDeclaration s name of
        None \<Rightarrow>
          (Err (Error (''Tried to set an option ('' @ name @ '') that was not declared.'')), s)
      | Some d \<Rightarrow>
          (case cv v (h d) of
             Ok v' \<Rightarrow>
               (Ok (),
                if d_scope (h d) = Some TypeScript
                then s\<lparr>o_compilerOptions := (o_compilerOptions s)(d_name (h d) \<mapsto> v')\<rparr>
                else s\<lparr>o_values := (o_values s)(d_name (h d) \<mapsto> v')\<rparr>)
           | Err e \<Rightarrow> (Err (Error e), s)))"

subsection \<open>Setting several values\<close>

text \<open>
  The argument of \<open>setValues\<close> is given by its \<open>Object.entries\<close>, in their order. The loop
  carries the array \<open>errors\<close>, to which a failing entry pushes its error.
\<close>

fun setValues_loop ::
  "'k heap \<Rightarrow> 'k converter \<Rightarrow> (string \<times> jsval) list \<Rightarrow> error list \<Rightarrow> 'r Options
     \<Rightarrow> error list \<times> 'r Options"
where
  "setValues_loop h cv [] errors s = (errors, s)"
| "setValues_loop h cv ((name, v) # rest) errors s =
     (case setValue h cv name v s of
        (Ok _, s') \<Rightarrow> setValues_loop h cv rest errors s'
      | (Err e, s') \<Rightarrow> setValues_loop h cv rest (errors @ [e]) s')"

definition setValues ::
  "'k heap \<Rightarrow> 'k converter \<Rightarrow> (string \<times> jsval) list \<Rightarrow> 'r Options
     \<Rightarrow> (unit, error list) Result \<times> 'r Options"
where
  "setValues h cv obj s =
     (case setValues_loop h cv obj [] s of
        (errors, s') \<Rightarrow> (if length errors \<noteq> 0 then Err errors else Ok (), s'))"

subsection \<open>The declaration registry\<close>

text \<open>
  Modelled from the spec: \<open>expect\<close> of the class \<open>Result\<close>, which is not among the sources.
  It unwraps: the value of \<open>Ok\<close>, and on \<open>Err\<close> an exception, taken here to carry the given
  message.
\<close>

definition expect :: "('a, 'e) Result \<Rightarrow> string \<Rightarrow> error + 'a" where
  "expect r msg = (case r of Ok v \<Rightarrow> Inr v | Err _ \<Rightarrow> Inl (Error msg))"

text \<open>A string that may be absent is truthy when it is present and not empty.\<close>

definition truthy :: "string option \<Rightarrow> bool" where
  "truthy x = (case x of None \<Rightarrow> False | Some t \<Rightarrow> t \<noteq> [])"

definition declaration_names :: "'k DeclarationOption \<Rightarrow> string list" where
  "declaration_names d = d_name d # (if truthy (d_short d) then [the (d_short d)] else [])"

definition conflict_message :: "string \<Rightarrow> string" where
  "conflict_message name = ''The option '' @ name @ '' has already been registered''"

text \<open>The body of the loop over \<open>names\<close> in \<open>addDeclaration\<close>, for the declaration at \<open>d\<close>.\<close>

definition register_name :: "addr \<Rightarrow> string \<Rightarrow> 'r Options \<Rightarrow> 'r Options" where
  "register_name d name s =
     (let decl = getDeclaration s name in
      if decl \<noteq> None \<and> decl \<noteq> Some d
      then s\<lparr>o_logger := o_logger s @ [conflict_message name]\<rparr>
      else s\<lparr>o_declarations := AList.update (toLowerCase name) d (o_declarations s)\<rparr>)"

definition store_default ::
  "'k heap \<Rightarrow> 'k converter \<Rightarrow> addr \<Rightarrow> 'r Options \<Rightarrow> 'r Options completion"
where
  "store_default h cv d s =
     (case expect (cv (d_defaultValue (h d)) (h d))
             (''Failed to validate default value for '' @ d_name (h d)) of
        Inl e \<Rightarrow> Throws e s
      | Inr v \<Rightarrow> Returns (s\<lparr>o_values := (o_values s)(d_name (h d) \<mapsto> v)\<rparr>))"

definition addDeclaration ::
  "'k heap \<Rightarrow> 'k converter \<Rightarrow> addr \<Rightarrow> 'r Options \<Rightarrow> 'r Options completion"
where
  "addDeclaration h cv d s =
     (let s1 = fold (register_name d) (declaration_names (h d)) s in
      if d_scope (h d) \<noteq> Some TypeScript then store_default h cv d s1 else Returns s1)"

definition removeDeclarationByName :: "'k heap \<Rightarrow> string \<Rightarrow> 'r Options \<Rightarrow> 'r Options" where
  "removeDeclarationByName h name s =
     (case getDeclaration s name of
        None \<Rightarrow> s
      | Some d \<Rightarrow>
          (let ds1 = AList.delete (toLowerCase (d_name (h d))) (o_declarations s);
               ds2 = (if truthy (d_short (h d))
                      then AList.delete (toLowerCase (the (d_short (h d)))) ds1 else ds1)
           in s\<lparr>o_declarations := ds2, o_values := (o_values s)(d_name (h d) := None)\<rparr>))"

text \<open>
  \<open>reset\<close> walks \<open>_declarations.values()\<close> in the order of the map; an exception of
  \<open>expect\<close> leaves the loop with the values stored so far.
\<close>

fun reset_loop ::
  "'k heap \<Rightarrow> 'k converter \<Rightarrow> addr list \<Rightarrow> 'r Options \<Rightarrow> 'r Options completion"
where
  "reset_loop h cv [] s = Returns s"
| "reset_loop h cv (d # ds) s =
     (if d_scope (h d) \<noteq> Some TypeScript
      then (case store_default h cv d s of
              Throws e s' \<Rightarrow> Throws e s'
            | Returns s' \<Rightarrow> reset_loop h cv ds s')
      else reset_loop h cv ds s)"

definition reset :: "'k heap \<Rightarrow> 'k converter \<Rightarrow> 'r Options \<Rightarrow> 'r Options completion" where
  "reset h cv s =
     (case reset_loop h cv (map snd (o_declarations s)) s of
        Throws e s' \<Rightarrow> Throws e s'
      | Returns s' \<Rightarrow> Returns (s'\<lparr>o_compilerOptions := Map.empty\<rparr>))"

subsection \<open>Readers\<close>

text \<open>
  Modelled from the spec: \<open>insertPrioritySorted\<close> of the array utilities, which the options
  module imports and which is not among the sources. It inserts while keeping the priorities
  ascending, and a new reader goes behind the readers of the same priority that are already
  there.
\<close>

fun insertPrioritySorted :: "'r OptionsReader list \<Rightarrow> 'r OptionsReader \<Rightarrow> 'r OptionsReader list" where
  "insertPrioritySorted [] item = [item]"
| "insertPrioritySorted (v # arr) item =
     (if r_priority item < r_priority v then item # v # arr
      else v # insertPrioritySorted arr item)"

definition addReader :: "'r OptionsReader \<Rightarrow> 'r Options \<Rightarrow> 'r Options" where
  "addReader reader s = s\<lparr>o_readers := insertPrioritySorted (o_readers s) reader\<rparr>"

definition removeReaderByName :: "string \<Rightarrow> 'r Options \<Rightarrow> 'r Options" where
  "removeReaderByName name s = s\<lparr>o_readers := filter (\<lambda>reader. r_name reader \<noteq> name) (o_readers s)\<rparr>"

text \<open>
  \<open>read\<close> iterates over the array \<open>_readers\<close> by index, looking at the array as it is at each
  step, as the array iterator of \<open>for ... of\<close> does. The parameter \<open>run\<close> is the effect of a
  reader's \<open>read(container, logger)\<close> on the container; a reader may add readers, so the loop
  need not end, and \<open>None\<close> stands for a loop that does not. The second argument collects the
  readers invoked, in the order of the calls.
\<close>

partial_function (option) read_loop ::
  "('r OptionsReader \<Rightarrow> 'l \<Rightarrow> 'r Options \<Rightarrow> 'r Options) \<Rightarrow> 'l \<Rightarrow> nat \<Rightarrow> 'r OptionsReader list
     \<Rightarrow> 'r Options \<Rightarrow> ('r OptionsReader list \<times> 'r Options) option"
where
  "read_loop run logger i invoked s =
     (if i < length (o_readers s)
      then read_loop run logger (Suc i) (invoked @ [o_readers s ! i])
             (run (o_readers s ! i) logger s)
      else Some (invoked, s))"

definition read ::
  "('r OptionsReader \<Rightarrow> 'l \<Rightarrow> 'r Options \<Rightarrow> 'r Options) \<Rightarrow> 'l \<Rightarrow> 'r Options
     \<Rightarrow> ('r OptionsReader list \<times> 'r Options) option"
where
  "read run logger s = read_loop run logger 0 [] s"

subsection \<open>Derived notions\<close>

text \<open>
  The condition of the loop in \<open>addDeclaration\<close> under which a name is rejected: the key is
  taken, by another declaration object.
\<close>

definition conflicts :: "'r Options \<Rightarrow> addr \<Rightarrow> string \<Rightarrow> bool" where
  "conflicts s d name = (getDeclaration s name \<noteq> None \<and> getDeclaration s name \<noteq> Some d)"

text \<open>
  What \<open>setValue\<close> does for one entry of \<open>setValues\<close>: the error it returns, if any, and the
  container it leaves.
\<close>

definition entry_error ::
  "'k heap \<Rightarrow> 'k converter \<Rightarrow> 'r Options \<Rightarrow> string \<times> jsval \<Rightarrow> error option" where
  "entry_error h cv s entry =
     (case fst (setValue h cv (fst entry) (snd entry) s) of Ok _ \<Rightarrow> None | Err e \<Rightarrow> Some e)"

definition apply_entry ::
  "'k heap \<Rightarrow> 'k converter \<Rightarrow> 'r Options \<Rightarrow> string \<times> jsval \<Rightarrow> 'r Options" where
  "apply_entry h cv s entry = snd (setValue h cv (fst entry) (snd entry) s)"

subsection \<open>A sample container\<close>

text \<open>
  Concrete inputs for the examples below: a converter that accepts everything for a
  free-form option and only numbers for a numeric one, six declaration objects (two of them
  named \<open>Foo\<close> and one \<open>FOO\<close>), and the container in which four of them have been declared.
\<close>

datatype ex_kind = Mixed | NumberOnly

definition ex_convert :: "ex_kind converter" where
  "ex_convert v d =
     (case d_type d of
        Mixed \<Rightarrow> Ok v
      | NumberOnly \<Rightarrow> (case v of JNumber n \<Rightarrow> Ok v | _ \<Rightarrow> Err ''not a number''))"

definition ex_heap :: "ex_kind heap" where
  "ex_heap a =
     (if a = 10 then \<lparr>d_name = ''Foo'', d_short = Some ''f'', d_type = Mixed, d_scope = None,
                       d_defaultValue = JNumber (Finite 1)\<rparr>
      else if a = 11 then \<lparr>d_name = ''target'', d_short = None, d_type = Mixed,
                       d_scope = Some TypeScript, d_defaultValue = JUndefined\<rparr>
      else if a = 12 then \<lparr>d_name = ''Foo'', d_short = Some ''x'', d_type = Mixed, d_scope = None,
                       d_defaultValue = JNumber (Finite 2)\<rparr>
      else if a = 13 then \<lparr>d_name = ''count'', d_short = Some ''c'', d_type = NumberOnly,
                       d_scope = Some TypeDoc, d_defaultValue = JNumber (Finite 0)\<rparr>
      else if a = 15 then \<lparr>d_name = ''FOO'', d_short = None, d_type = Mixed,
                       d_scope = Some TypeDoc, d_defaultValue = JNumber (Finite 7)\<rparr>
      else \<lparr>d_name = ''list'', d_short = None, d_type = Mixed, d_scope = None,
             d_defaultValue = JObject 100 [(''0'', JString ''a'')]\<rparr>)"

definition ex_declared :: "unit Options" where
  "ex_declared =
     state_of (addDeclaration ex_heap ex_convert 14
       (state_of (addDeclaration ex_heap ex_convert 13
         (state_of (addDeclaration ex_heap ex_convert 11
           (state_of (addDeclaration ex_heap ex_convert 10 new_Options)))))))"

text \<open>The option \<open>list\<close> set to a fresh array with the entries of its default.\<close>

definition ex_list_copy :: "unit Options" where
  "ex_list_copy =
     snd (setValue ex_heap ex_convert ''list'' (JObject 200 [(''0'', JString ''a'')]) ex_declared)"

text \<open>The option \<open>Foo\<close> set to 5, and the compiler option \<open>target\<close> set.\<close>

definition ex_foo_set :: "unit Options" where
  "ex_foo_set = snd (setValue ex_heap ex_convert ''Foo'' (JNumber (Finite 5)) ex_declared)"

definition ex_target_set :: "unit Options" where
  "ex_target_set = snd (setValue ex_heap ex_convert ''target'' (JString ''es5'') ex_declared)"

text \<open>
  The second declaration object named \<open>Foo\<close> added to the sample container: its name is
  rejected and its short name \<open>x\<close> is registered.
\<close>

definition ex_conflict :: "unit Options" where
  "ex_conflict = state_of (addDeclaration ex_heap ex_convert 12 ex_declared)"

text \<open>Entries for \<open>setValues\<close>: the first, third and fourth fail.\<close>

definition ex_entries :: "(string \<times> jsval) list" where
  "ex_entries =
     [(''nope'', JNull), (''Count'', JNumber (Finite 9)), (''c'', JString ''x''),
      (''zzz'', JNull)]"

text \<open>Four readers, each of which sets the option \<open>Foo\<close> to its own name.\<close>

definition ex_reader :: "int \<Rightarrow> string \<Rightarrow> unit OptionsReader" where
  "ex_reader p n = \<lparr>r_priority = p, r_name = n, r_read = ()\<rparr>"

definition ex_readers :: "unit OptionsReader list" where
  "ex_readers =
     [ex_reader 300 ''argv-again'', ex_reader 0 ''argv'', ex_reader 200 ''tsconfig-json'',
      ex_reader 0 ''plugin'']"

definition ex_run :: "unit OptionsReader \<Rightarrow> unit \<Rightarrow> unit Options \<Rightarrow> unit Options" where
  "ex_run reader logger s = snd (setValue ex_heap ex_convert ''Foo'' (JString (r_name reader)) s)"

section \<open>Facts about the sample container\<close>

lemma ex_heap_simps:
  "d_scope (ex_heap 10) = None" "d_name (ex_heap 10) = ''Foo''"
  "d_scope (ex_heap 11) = Some TypeScript" "d_name (ex_heap 11) = ''target''"
  "d_scope (ex_heap 12) = None" "d_name (ex_heap 12) = ''Foo''"
  "d_scope (ex_heap 13) = Some TypeDoc" "d_name (ex_heap 13) = ''count''"
  "d_scope (ex_heap 14) = None" "d_name (ex_heap 14) = ''list''"
  "d_defaultValue (ex_heap 14) = JObject 100 [(''0'', JString ''a'')]"
  by (simp_all add: ex_heap_def)

lemma ex_convert_simps:
  "ex_convert (JString ''9'') (ex_heap 13) = Err ''not a number''"
  "ex_convert (JNumber (Finite 9)) (ex_heap 13) = Ok (JNumber (Finite 9))"
  "ex_convert (JString ''es5'') (ex_heap 11) = Ok (JString ''es5'')"
  by (simp_all add: ex_convert_def ex_heap_def)

lemma ex_names:
  "declaration_names (ex_heap 10) = [''Foo'', ''f'']"
  "declaration_names (ex_heap 12) = [''Foo'', ''x'']"
  "declaration_names (ex_heap 15) = [''FOO'']"
  by (simp_all add: declaration_names_def truthy_def ex_heap_def)

lemma ex_defaults:
  "ex_convert (d_defaultValue (ex_heap 10)) (ex_heap 10) = Ok (JNumber (Finite 1))"
  "ex_convert (d_defaultValue (ex_heap 12)) (ex_heap 12) = Ok (JNumber (Finite 2))"
  "ex_convert (d_defaultValue (ex_heap 15)) (ex_heap 15) = Ok (JNumber (Finite 7))"
  "d_scope (ex_heap 15) = Some TypeDoc" "d_name (ex_heap 15) = ''FOO''"
  by (simp_all add: ex_convert_def ex_heap_def)

lemma ex_declared_lookups:
  "getDeclaration ex_declared ''nope'' = None"
  "getDeclaration ex_declared ''TARGET'' = Some 11"
  "getDeclaration ex_declared ''F'' = Some 10"
  "getDeclaration ex_declared ''Count'' = Some 13"
  "getDeclaration ex_declared ''list'' = Some 14"
  by code_simp+

lemma ex_declared_values:
  "o_values ex_declared ''Foo'' = Some (JNumber (Finite 1))"
  "o_values ex_declared ''count'' = Some (JNumber (Finite 0))"
  "o_values ex_declared ''list'' = Some (JObject 100 [(''0'', JString ''a'')])"
  "o_values ex_declared ''target'' = None"
  by code_simp+

lemma ex_conflicts:
  "conflicts ex_declared 15 ''FOO''"
  "conflicts ex_declared 12 ''Foo''"
  "\<not> conflicts ex_declared 12 ''x''"
  "getDeclaration ex_declared ''FOO'' = Some 10"
  "getDeclaration ex_declared ''Foo'' = Some 10"
  "o_logger ex_declared = []"
  "o_readers ex_declared = []"
  by code_simp+

lemma ex_list_copy_facts:
  "getDeclaration ex_list_copy ''LIST'' = Some 14"
  "o_values ex_list_copy ''list'' = Some (JObject 200 [(''0'', JString ''a'')])"
  by code_simp+

lemma ex_foo_set_facts:
  "getDeclaration ex_foo_set ''Foo'' = Some 10"
  "getDeclaration ex_foo_set ''f'' = Some 10"
  "o_declarations ex_foo_set =
     [(''foo'', 10), (''f'', 10), (''target'', 11), (''count'', 13), (''c'', 13), (''list'', 14)]"
  "thrown (reset ex_heap ex_convert ex_foo_set) = None"
  by code_simp+

lemma ex_run_readers: "o_readers (ex_run reader lg s) = o_readers s"
  by (simp add: ex_run_def setValue_def split: option.split Result.split)

lemma ex_sorted:
  "sort_key r_priority ex_readers =
     [ex_reader 0 ''argv'', ex_reader 0 ''plugin'', ex_reader 200 ''tsconfig-json'',
      ex_reader 300 ''argv-again'']"
  by (simp add: ex_readers_def ex_reader_def)

lemma completion_collapse: "thrown c = None \<Longrightarrow> c = Returns (state_of c)"
  by (cases c) simp_all

section \<open>Reading values\<close>

text \<open>
  C6. \<open>tryGetValue\<close> gives a \<open>Result\<close> for every name and has no exception among its
  outcomes: \<open>Err\<close> with the unknown-option error when the name is not declared, \<open>Err\<close> with
  the wrong-scope error when the declaration has the TypeScript scope, and otherwise \<open>Ok\<close>
  with the value stored under the declaration's canonical name.
\<close>

theorem tryGetValue_outcomes:
  "(getDeclaration s name = None \<longrightarrow>
      tryGetValue h s name = Err (Error (''Unknown option '' @ [CHR 0x27] @ name @ [CHR 0x27]))) \<and>
   (\<forall>d. getDeclaration s name = Some d \<and> d_scope (h d) = Some TypeScript \<longrightarrow>
      tryGetValue h s name =
        Err (Error ''TypeScript options must be fetched with getCompilerOptions.'')) \<and>
   (\<forall>d. getDeclaration s name = Some d \<and> d_scope (h d) \<noteq> Some TypeScript \<longrightarrow>
      tryGetValue h s name = Ok (property (o_values s) (d_name (h d))))"
  by (simp add: tryGetValue_def)

theorem tryGetValue_outcomes_witness:
  "tryGetValue ex_heap ex_declared ''nope'' =
     Err (Error (''Unknown option '' @ [CHR 0x27] @ ''nope'' @ [CHR 0x27])) \<and>
   tryGetValue ex_heap ex_declared ''TARGET'' =
     Err (Error ''TypeScript options must be fetched with getCompilerOptions.'') \<and>
   tryGetValue ex_heap ex_declared ''F'' = Ok (JNumber (Finite 1))"
  using tryGetValue_outcomes [of ex_declared "''nope''" ex_heap]
    tryGetValue_outcomes [of ex_declared "''TARGET''" ex_heap]
    tryGetValue_outcomes [of ex_declared "''F''" ex_heap]
  by (simp add: ex_declared_lookups ex_heap_simps ex_declared_values property_def)

text \<open>
  C10. For a name with no registered declaration \<open>isDefault\<close> throws instead of returning
  \<open>false\<close>: it calls \<open>getValue\<close>, which throws the unknown-option error that \<open>tryGetValue\<close>
  produced.
\<close>

theorem isDefault_undeclared_throws:
  "getDeclaration s name = None \<Longrightarrow>
     isDefault h s name = Inl (Error (''Unknown option '' @ [CHR 0x27] @ name @ [CHR 0x27])) \<and>
     getValue h s name = Inl (Error (''Unknown option '' @ [CHR 0x27] @ name @ [CHR 0x27])) \<and>
     tryGetValue h s name = Err (Error (''Unknown option '' @ [CHR 0x27] @ name @ [CHR 0x27]))"
  by (simp add: isDefault_def getValue_def tryGetValue_def)

theorem isDefault_undeclared_throws_witness:
  "getDeclaration ex_declared ''nope'' = None \<and>
   isDefault ex_heap ex_declared ''nope'' =
     Inl (Error (''Unknown option '' @ [CHR 0x27] @ ''nope'' @ [CHR 0x27]))"
  using isDefault_undeclared_throws [of ex_declared "''nope''" ex_heap]
  by (simp add: ex_declared_lookups)

text \<open>
  C8. For a declared option outside the TypeScript scope, \<open>isDefault\<close> returns the result
  of \<open>===\<close> between the stored value and the declaration's \<open>defaultValue\<close>; a stored
  container with the entries of the default and another address gives \<open>false\<close>.
\<close>

theorem isDefault_strict_equality:
  "getDeclaration s name = Some d \<Longrightarrow> d_scope (h d) \<noteq> Some TypeScript \<Longrightarrow>
     isDefault h s name =
       Inr (strict_equals (property (o_values s) (d_name (h d))) (d_defaultValue (h d))) \<and>
     (\<forall>a b es. property (o_values s) (d_name (h d)) = JObject a es \<and>
        d_defaultValue (h d) = JObject b es \<and> a \<noteq> b \<longrightarrow> isDefault h s name = Inr False)"
  by (simp add: isDefault_def getValue_def tryGetValue_def)

theorem isDefault_strict_equality_witness:
  "isDefault ex_heap ex_declared ''list'' = Inr True \<and>
   isDefault ex_heap ex_list_copy ''LIST'' = Inr False"
  using isDefault_strict_equality [of ex_declared "''list''" 14 ex_heap]
    isDefault_strict_equality [of ex_list_copy "''LIST''" 14 ex_heap]
  by (simp add: ex_declared_lookups ex_declared_values ex_list_copy_facts ex_heap_simps
      property_def)

section \<open>Setting values\<close>

text \<open>
  C3. \<open>setValue\<close> returns \<open>Err\<close> and leaves the container as it is when the name is not
  declared, and when the conversion fails (with the conversion's error); when the conversion
  succeeds it returns \<open>Ok\<close> and stores the converted value under the declaration's canonical
  name, in \<open>_compilerOptions\<close> for the TypeScript scope and in \<open>_values\<close> otherwise.
\<close>

theorem setValue_outcomes:
  "(getDeclaration s name = None \<longrightarrow>
      setValue h cv name v s =
        (Err (Error (''Tried to set an option ('' @ name @ '') that was not declared.'')), s)) \<and>
   (\<forall>d e. getDeclaration s name = Some d \<and> cv v (h d) = Err e \<longrightarrow>
      setValue h cv name v s = (Err (Error e), s)) \<and>
   (\<forall>d v'. getDeclaration s name = Some d \<and> cv v (h d) = Ok v' \<longrightarrow>
      fst (setValue h cv name v s) = Ok () \<and>
      snd (setValue h cv name v s) =
        (if d_scope (h d) = Some TypeScript
         then s\<lparr>o_compilerOptions := (o_compilerOptions s)(d_name (h d) \<mapsto> v')\<rparr>
         else s\<lparr>o_values := (o_values s)(d_name (h d) \<mapsto> v')\<rparr>))"
  by (simp add: setValue_def)

theorem setValue_outcomes_witness:
  "setValue ex_heap ex_convert ''nope'' JNull ex_declared =
     (Err (Error ''Tried to set an option (nope) that was not declared.''), ex_declared) \<and>
   setValue ex_heap ex_convert ''Count'' (JString ''9'') ex_declared =
     (Err (Error ''not a number''), ex_declared) \<and>
   setValue ex_heap ex_convert ''Count'' (JNumber (Finite 9)) ex_declared =
     (Ok (), ex_declared\<lparr>o_values := (o_values ex_declared)(''count'' \<mapsto> JNumber (Finite 9))\<rparr>) \<and>
   setValue ex_heap ex_convert ''TARGET'' (JString ''es5'') ex_declared =
     (Ok (), ex_declared\<lparr>o_compilerOptions :=
        (o_compilerOptions ex_declared)(''target'' \<mapsto> JString ''es5'')\<rparr>)"
  using setValue_outcomes [of ex_declared "''nope''" ex_heap ex_convert JNull]
    setValue_outcomes [of ex_declared "''Count''" ex_heap ex_convert "JString ''9''"]
    setValue_outcomes [of ex_declared "''Count''" ex_heap ex_convert "JNumber (Finite 9)"]
    setValue_outcomes [of ex_declared "''TARGET''" ex_heap ex_convert "JString ''es5''"]
  by (simp add: ex_declared_lookups ex_heap_simps ex_convert_simps prod_eq_iff)

section \<open>Setting several values\<close>

lemma setValue_declarations:
  "o_declarations (snd (setValue h cv name v s)) = o_declarations s"
  by (simp add: setValue_def split: option.split Result.split)

lemma setValue_failure_state:
  "fst (setValue h cv name v s) = Err e \<Longrightarrow> snd (setValue h cv name v s) = s"
  by (auto simp: setValue_def split: option.splits Result.splits)

lemma entry_error_declarations:
  "o_declarations s' = o_declarations s \<Longrightarrow> entry_error h cv s' entry = entry_error h cv s entry"
  by (simp add: entry_error_def setValue_def getDeclaration_def split: option.split Result.split)

lemma apply_entry_declarations: "o_declarations (apply_entry h cv s entry) = o_declarations s"
  by (simp add: apply_entry_def setValue_declarations)

lemma apply_entry_failure: "entry_error h cv s entry = Some e \<Longrightarrow> apply_entry h cv s entry = s"
  by (auto simp: entry_error_def apply_entry_def setValue_failure_state split: Result.splits)

lemma setValues_loop_eq:
  "setValues_loop h cv obj errors s =
     (errors @ List.map_filter (entry_error h cv s) obj, foldl (apply_entry h cv) s obj)"
proof (induction obj arbitrary: errors s)
  case Nil
  then show ?case by (simp add: List.map_filter_simps)
next
  case (Cons entry obj)
  obtain name v where entry: "entry = (name, v)" by (cases entry)
  let ?s' = "apply_entry h cv s entry"
  have "entry_error h cv ?s' = entry_error h cv s"
    by (rule ext) (simp add: entry_error_declarations [OF apply_entry_declarations])
  then have same:
    "List.map_filter (entry_error h cv ?s') obj = List.map_filter (entry_error h cv s) obj"
    by simp
  obtain r s1 where sv: "setValue h cv name v s = (r, s1)" by (cases "setValue h cv name v s")
  then have s1: "?s' = s1" by (simp add: apply_entry_def entry)
  show ?case
  proof (cases r)
    case (Ok u)
    with sv have "entry_error h cv s entry = None" by (simp add: entry_error_def entry)
    with Ok sv s1 Cons.IH [of errors s1] same show ?thesis
      by (simp add: entry List.map_filter_simps)
  next
    case (Err e)
    with sv have "entry_error h cv s entry = Some e" by (simp add: entry_error_def entry)
    with Err sv s1 Cons.IH [of "errors @ [e]" s1] same show ?thesis
      by (simp add: entry List.map_filter_simps)
  qed
qed

lemma foldl_apply_entry_successes:
  "foldl (apply_entry h cv) s obj =
     foldl (apply_entry h cv) s (filter (\<lambda>entry. entry_error h cv s entry = None) obj)"
proof (induction obj arbitrary: s)
  case Nil
  then show ?case by simp
next
  case (Cons entry obj)
  let ?s' = "apply_entry h cv s entry"
  have same: "(\<lambda>x. entry_error h cv ?s' x = None) = (\<lambda>x. entry_error h cv s x = None)"
    by (simp add: entry_error_declarations [OF apply_entry_declarations])
  show ?case
  proof (cases "entry_error h cv s entry")
    case None
    with Cons.IH [of ?s'] same show ?thesis by simp
  next
    case (Some e)
    with Cons.IH [of s] show ?thesis by (simp add: apply_entry_failure)
  qed
qed

text \<open>
  C7. \<open>setValues\<close> applies \<open>setValue\<close> to the entries in their order and goes on after a
  failure. It returns \<open>Err\<close> with the errors of all failing entries, in the order of the
  entries, when there is one, and \<open>Ok\<close> otherwise. The container it leaves is the one
  reached by applying every entry, which is the one reached by applying the succeeding
  entries alone: nothing is rolled back.
\<close>

theorem setValues_aggregates:
  "setValues h cv obj s =
     (if List.map_filter (entry_error h cv s) obj = [] then Ok ()
      else Err (List.map_filter (entry_error h cv s) obj),
      foldl (apply_entry h cv) s obj) \<and>
   foldl (apply_entry h cv) s obj =
     foldl (apply_entry h cv) s (filter (\<lambda>entry. entry_error h cv s entry = None) obj)"
  using foldl_apply_entry_successes [of h cv s obj]
  by (simp add: setValues_def setValues_loop_eq)

lemma ex_entries_facts:
  "List.map_filter (entry_error ex_heap ex_convert ex_declared) ex_entries =
     [Error ''Tried to set an option (nope) that was not declared.'', Error ''not a number'',
      Error ''Tried to set an option (zzz) that was not declared.'']"
  "o_values (foldl (apply_entry ex_heap ex_convert) ex_declared ex_entries) ''count'' =
     Some (JNumber (Finite 9))"
  by code_simp+

theorem setValues_aggregates_witness:
  "fst (setValues ex_heap ex_convert ex_entries ex_declared) =
     Err [Error ''Tried to set an option (nope) that was not declared.'', Error ''not a number'',
          Error ''Tried to set an option (zzz) that was not declared.''] \<and>
   o_values (snd (setValues ex_heap ex_convert ex_entries ex_declared)) ''count'' =
     Some (JNumber (Finite 9))"
  using setValues_aggregates [of ex_heap ex_convert ex_entries ex_declared, THEN conjunct1]
  by (simp add: ex_entries_facts)

section \<open>The order of the readers\<close>

lemma mset_insertPrioritySorted:
  "mset (insertPrioritySorted arr item) = add_mset item (mset arr)"
  by (induction arr) simp_all

lemma set_insertPrioritySorted: "set (insertPrioritySorted arr item) = insert item (set arr)"
  by (induction arr) auto

lemma sorted_insertPrioritySorted:
  "sorted (map r_priority arr) \<Longrightarrow> sorted (map r_priority (insertPrioritySorted arr item))"
  by (induction arr) (auto simp: set_insertPrioritySorted)

lemma filter_above_empty:
  "\<forall>x\<in>set xs. p < r_priority x \<Longrightarrow> filter (\<lambda>x. r_priority x = p) xs = []"
  by (induction xs) auto

lemma filter_insertPrioritySorted:
  "sorted (map r_priority arr) \<Longrightarrow>
     filter (\<lambda>x. r_priority x = p) (insertPrioritySorted arr item) =
       filter (\<lambda>x. r_priority x = p) arr @ (if r_priority item = p then [item] else [])"
proof (induction arr)
  case Nil
  then show ?case by simp
next
  case (Cons v arr)
  show ?case
  proof (cases "r_priority item < r_priority v")
    case True
    with Cons.prems have "\<forall>x\<in>set (v # arr). r_priority item < r_priority x" by auto
    then have "r_priority item = p \<Longrightarrow> filter (\<lambda>x. r_priority x = p) (v # arr) = []"
      using filter_above_empty [of "v # arr" p] by blast
    with True show ?thesis by auto
  next
    case False
    with Cons show ?thesis by simp
  qed
qed

lemma readers_fold_addReader:
  "o_readers (fold addReader rs s) = fold (\<lambda>item arr. insertPrioritySorted arr item) rs (o_readers s)"
  by (induction rs arbitrary: s) (simp_all add: addReader_def)

lemma inserted_properties:
  "mset (fold (\<lambda>item arr. insertPrioritySorted arr item) rs []) = mset rs \<and>
   sorted (map r_priority (fold (\<lambda>item arr. insertPrioritySorted arr item) rs [])) \<and>
   (\<forall>p. filter (\<lambda>x. r_priority x = p) (fold (\<lambda>item arr. insertPrioritySorted arr item) rs []) =
        filter (\<lambda>x. r_priority x = p) rs)"
  by (induction rs rule: rev_induct)
    (simp_all add: mset_insertPrioritySorted sorted_insertPrioritySorted filter_insertPrioritySorted)

lemma inserted_sort_key:
  "fold (\<lambda>item arr. insertPrioritySorted arr item) rs [] = sort_key r_priority rs"
proof (rule sym, rule properties_for_sort_key)
  show "mset (fold (\<lambda>item arr. insertPrioritySorted arr item) rs []) = mset rs"
    using inserted_properties [of rs] by simp
  show "sorted (map r_priority (fold (\<lambda>item arr. insertPrioritySorted arr item) rs []))"
    using inserted_properties [of rs] by simp
  fix k
  show "filter (\<lambda>x. r_priority k = r_priority x) (fold (\<lambda>item arr. insertPrioritySorted arr item) rs []) =
          filter (\<lambda>x. r_priority k = r_priority x) rs"
    using inserted_properties [of rs] by (simp add: eq_commute [of "r_priority k"])
qed

lemma read_loop_unchanged_readers:
  assumes keep: "\<And>reader lg s. o_readers (run reader lg s) = o_readers s"
  shows "read_loop run logger i invoked s =
           Some (invoked @ drop i (o_readers s),
                 fold (\<lambda>reader s. run reader logger s) (drop i (o_readers s)) s)"
proof (induction "length (o_readers s) - i" arbitrary: i invoked s)
  case 0
  then show ?case by (subst read_loop.simps) simp
next
  case (Suc n)
  then have less: "i < length (o_readers s)" by simp
  let ?reader = "o_readers s ! i"
  let ?s' = "run ?reader logger s"
  have "n = length (o_readers ?s') - Suc i" using Suc.hyps(2) by (simp add: keep)
  from Suc.hyps(1) [OF this, of "invoked @ [?reader]"]
  have "read_loop run logger (Suc i) (invoked @ [?reader]) ?s' =
          Some ((invoked @ [?reader]) @ drop (Suc i) (o_readers s),
                fold (\<lambda>reader s. run reader logger s) (drop (Suc i) (o_readers s)) ?s')"
    by (simp add: keep)
  moreover have "drop i (o_readers s) = ?reader # drop (Suc i) (o_readers s)"
    using less by (simp add: Cons_nth_drop_Suc)
  ultimately show ?case using less by (subst read_loop.simps) simp
qed

text \<open>
  C5. Readers are added to a container without readers, in the order \<open>rs\<close>, by \<open>addReader\<close>;
  the readers' operations leave the array of readers alone. Then \<open>read\<close> ends and has invoked
  every reader once, in ascending priority, the readers of one priority in the order in which
  they were added; each reader works on the container its predecessor left. With the
  priorities 300, 0, 200, 0 the order is 0, 0, 200, 300 (the example that follows).
\<close>

theorem read_order:
  assumes "\<And>reader lg s. o_readers (run reader lg s) = o_readers s" and "o_readers s0 = []"
  shows "read run logger (fold addReader rs s0) =
           Some (sort_key r_priority rs,
                 fold (\<lambda>reader s. run reader logger s) (sort_key r_priority rs) (fold addReader rs s0)) \<and>
         mset (sort_key r_priority rs) = mset rs \<and>
         sorted (map r_priority (sort_key r_priority rs)) \<and>
         (\<forall>p. filter (\<lambda>reader. r_priority reader = p) (sort_key r_priority rs) =
              filter (\<lambda>reader. r_priority reader = p) rs)"
proof -
  have "o_readers (fold addReader rs s0) = sort_key r_priority rs"
    by (simp add: readers_fold_addReader assms(2) inserted_sort_key)
  then show ?thesis
    using read_loop_unchanged_readers [of run logger 0 "[]" "fold addReader rs s0", OF assms(1)]
    by (simp add: read_def sort_key_stable)
qed

theorem read_order_witness:
  "map_option fst (read ex_run () (fold addReader ex_readers ex_declared)) =
     Some [ex_reader 0 ''argv'', ex_reader 0 ''plugin'', ex_reader 200 ''tsconfig-json'',
           ex_reader 300 ''argv-again'']"
  using read_order [of ex_run ex_declared "()" ex_readers, OF ex_run_readers ex_conflicts(7)]
  by (simp add: ex_sorted)

section \<open>Adding a declaration\<close>



lemma register_name_same:
  "getDeclaration s name = Some d \<Longrightarrow> register_name d name s = s"
  by (simp add: register_name_def getDeclaration_def update_triv)






lemma register_names_same:
  "\<forall>name\<in>set names. getDeclaration s name = Some d \<Longrightarrow> fold (register_name d) names s = s"
  by (induction names) (simp_all add: register_name_same)



text \<open>
  C1, as the code has it. A declaration object that is registered under each of its names is
  added again: no diagnostic is emitted and the registry stays as it is. For the TypeScript
  scope nothing changes at all. For every other scope the value stored under the canonical
  name is replaced by the converted default, so a value written by \<open>setValue\<close> is lost; if
  the default does not convert, \<open>expect\<close> throws and the container is unchanged.
\<close>

theorem addDeclaration_again:
  assumes "\<forall>name\<in>set (declaration_names (h d)). getDeclaration s name = Some d"
  shows "addDeclaration h cv d s =
           (if d_scope (h d) = Some TypeScript then Returns s
            else case cv (d_defaultValue (h d)) (h d) of
                   Ok v \<Rightarrow> Returns (s\<lparr>o_values := (o_values s)(d_name (h d) \<mapsto> v)\<rparr>)
                 | Err e \<Rightarrow>
                     Throws (Error (''Failed to validate default value for '' @ d_name (h d))) s)"
  using register_names_same [OF assms]
  by (simp add: addDeclaration_def store_default_def expect_def split: Result.split)

theorem addDeclaration_again_witness:
  "getDeclaration ex_foo_set ''Foo'' = Some 10 \<and> getDeclaration ex_foo_set ''f'' = Some 10 \<and>
   addDeclaration ex_heap ex_convert 10 ex_foo_set =
     Returns (ex_foo_set\<lparr>o_values := (o_values ex_foo_set)(''Foo'' \<mapsto> JNumber (Finite 1))\<rparr>)"
  using addDeclaration_again [of ex_heap 10 ex_foo_set ex_convert]
  by (simp add: ex_names ex_foo_set_facts ex_heap_simps ex_defaults)

text \<open>
  The claim C1 as the spec states it, with the stored value preserved, fails: \<open>Foo\<close> is
  declared with the default 1 and set to 5; adding the same declaration object again gives
  the value 1.
\<close>

theorem addDeclaration_again_resets_value:
  "getDeclaration ex_foo_set ''Foo'' = Some 10 \<and> getDeclaration ex_foo_set ''f'' = Some 10 \<and>
   getValue ex_heap ex_foo_set ''Foo'' = Inr (JNumber (Finite 5)) \<and>
   getValue ex_heap (state_of (addDeclaration ex_heap ex_convert 10 ex_foo_set)) ''Foo'' =
     Inr (JNumber (Finite 1)) \<and>
   getValue ex_heap (state_of (addDeclaration ex_heap ex_convert 10 ex_foo_set)) ''Foo'' \<noteq>
     getValue ex_heap ex_foo_set ''Foo''"
  by code_simp




section \<open>Resetting to the defaults\<close>

lemma store_default_Returns:
  "store_default h cv d s = Returns s' \<Longrightarrow>
     \<exists>v. cv (d_defaultValue (h d)) (h d) = Ok v \<and> s' = s\<lparr>o_values := (o_values s)(d_name (h d) \<mapsto> v)\<rparr>"
  by (auto simp: store_default_def expect_def split: Result.splits)

lemma store_default_total:
  "cv (d_defaultValue (h d)) (h d) = Ok v \<Longrightarrow> \<exists>s'. store_default h cv d s = Returns s'"
  by (simp add: store_default_def expect_def)

lemma reset_loop_declarations:
  "reset_loop h cv ds s = Returns s' \<Longrightarrow> o_declarations s' = o_declarations s"
proof (induction ds arbitrary: s)
  case Nil
  then show ?case by simp
next
  case (Cons d ds)
  show ?case
  proof (cases "d_scope (h d) \<noteq> Some TypeScript")
    case True
    with Cons.prems obtain s1 where s1: "store_default h cv d s = Returns s1"
      and rest: "reset_loop h cv ds s1 = Returns s'"
      by (auto split: completion.splits)
    from store_default_Returns [OF s1] have "o_declarations s1 = o_declarations s" by auto
    with Cons.IH [OF rest] show ?thesis by simp
  next
    case False
    with Cons show ?thesis by simp
  qed
qed

lemma reset_loop_keeps:
  "reset_loop h cv ds s = Returns s' \<Longrightarrow> o_values s k = Some v \<Longrightarrow>
     \<forall>d'\<in>set ds. d_scope (h d') \<noteq> Some TypeScript \<and> d_name (h d') = k \<longrightarrow>
       cv (d_defaultValue (h d')) (h d') = Ok v \<Longrightarrow>
     o_values s' k = Some v"
proof (induction ds arbitrary: s)
  case Nil
  then show ?case by simp
next
  case (Cons d ds)
  show ?case
  proof (cases "d_scope (h d) \<noteq> Some TypeScript")
    case True
    with Cons.prems(1) obtain s1 where s1: "store_default h cv d s = Returns s1"
      and rest: "reset_loop h cv ds s1 = Returns s'"
      by (auto split: completion.splits)
    from store_default_Returns [OF s1] obtain w where
      w: "cv (d_defaultValue (h d)) (h d) = Ok w"
      and s1_eq: "s1 = s\<lparr>o_values := (o_values s)(d_name (h d) \<mapsto> w)\<rparr>" by auto
    have "o_values s1 k = Some v"
      using Cons.prems(2,3) True w by (auto simp: s1_eq)
    from Cons.IH [OF rest this] Cons.prems(3) show ?thesis by simp
  next
    case False
    with Cons show ?thesis by simp
  qed
qed

lemma reset_loop_stores:
  "reset_loop h cv ds s = Returns s' \<Longrightarrow> d \<in> set ds \<Longrightarrow> d_scope (h d) \<noteq> Some TypeScript \<Longrightarrow>
     \<forall>d'\<in>set ds. d_scope (h d') \<noteq> Some TypeScript \<and> d_name (h d') = d_name (h d) \<longrightarrow> d' = d \<Longrightarrow>
     \<exists>v. cv (d_defaultValue (h d)) (h d) = Ok v \<and> o_values s' (d_name (h d)) = Some v"
proof (induction ds arbitrary: s)
  case Nil
  then show ?case by simp
next
  case (Cons d0 ds)
  show ?case
  proof (cases "d0 = d")
    case True
    with Cons.prems(1,3) obtain s1 where s1: "store_default h cv d s = Returns s1"
      and rest: "reset_loop h cv ds s1 = Returns s'"
      by (auto split: completion.splits)
    from store_default_Returns [OF s1] obtain v where
      v: "cv (d_defaultValue (h d)) (h d) = Ok v"
      and s1_eq: "s1 = s\<lparr>o_values := (o_values s)(d_name (h d) \<mapsto> v)\<rparr>" by auto
    have here: "o_values s1 (d_name (h d)) = Some v" by (simp add: s1_eq)
    have "\<forall>d'\<in>set ds. d_scope (h d') \<noteq> Some TypeScript \<and> d_name (h d') = d_name (h d) \<longrightarrow>
            cv (d_defaultValue (h d')) (h d') = Ok v"
      using Cons.prems(4) v by auto
    from reset_loop_keeps [OF rest here this] v show ?thesis by blast
  next
    case False
    with Cons.prems(2) have mem: "d \<in> set ds" by simp
    have uniq: "\<forall>d'\<in>set ds. d_scope (h d') \<noteq> Some TypeScript \<and> d_name (h d') = d_name (h d) \<longrightarrow> d' = d"
      using Cons.prems(4) by simp
    show ?thesis
    proof (cases "d_scope (h d0) \<noteq> Some TypeScript")
      case True
      with Cons.prems(1) obtain s1 where "reset_loop h cv ds s1 = Returns s'"
        by (auto split: completion.splits)
      from Cons.IH [OF this mem Cons.prems(3) uniq] show ?thesis .
    next
      case False
      with Cons.prems(1) have "reset_loop h cv ds s = Returns s'" by simp
      from Cons.IH [OF this mem Cons.prems(3) uniq] show ?thesis .
    qed
  qed
qed

lemma reset_Returns:
  "reset h cv s = Returns s' \<Longrightarrow>
     \<exists>s1. reset_loop h cv (map snd (o_declarations s)) s = Returns s1 \<and>
          s' = s1\<lparr>o_compilerOptions := Map.empty\<rparr>"
  by (auto simp: reset_def split: completion.splits)

lemma reset_loop_returns:
  "\<forall>d\<in>set ds. d_scope (h d) \<noteq> Some TypeScript \<longrightarrow> (\<exists>v. cv (d_defaultValue (h d)) (h d) = Ok v) \<Longrightarrow>
     \<exists>s'. reset_loop h cv ds s = Returns s'"
proof (induction ds arbitrary: s)
  case Nil
  then show ?case by simp
next
  case (Cons d ds)
  show ?case
  proof (cases "d_scope (h d) \<noteq> Some TypeScript")
    case True
    with Cons.prems obtain v where "cv (d_defaultValue (h d)) (h d) = Ok v" by auto
    from store_default_total [of cv h d v s, OF this]
    obtain s1 where "store_default h cv d s = Returns s1" by blast
    moreover from Cons.IH [of s1] Cons.prems obtain s' where "reset_loop h cv ds s1 = Returns s'"
      by auto
    ultimately show ?thesis using True by simp
  next
    case False
    with Cons.IH [of s] Cons.prems show ?thesis by simp
  qed
qed

lemma reset_returns:
  "\<forall>d\<in>snd ` set (o_declarations s).
      d_scope (h d) \<noteq> Some TypeScript \<longrightarrow> (\<exists>v. cv (d_defaultValue (h d)) (h d) = Ok v) \<Longrightarrow>
     \<exists>s'. reset h cv s = Returns s'"
  using reset_loop_returns [of "map snd (o_declarations s)" h cv s]
  by (auto simp: reset_def)

text \<open>
  C4, as the code has it. When \<open>reset\<close> returns, a declared option outside the TypeScript
  scope has the converted default of its declaration as its value, provided that no other
  registered declaration object outside the TypeScript scope has the same canonical name; and
  the compiler options are empty.
\<close>

theorem reset_defaults:
  assumes "reset h cv s = Returns s'"
    and "getDeclaration s name = Some d" and "d_scope (h d) \<noteq> Some TypeScript"
    and "\<forall>d'\<in>snd ` set (o_declarations s).
           d_scope (h d') \<noteq> Some TypeScript \<and> d_name (h d') = d_name (h d) \<longrightarrow> d' = d"
  shows "(\<exists>v. cv (d_defaultValue (h d)) (h d) = Ok v \<and> getValue h s' name = Inr v) \<and>
         o_compilerOptions s' = Map.empty"
proof -
  from reset_Returns [OF assms(1)] obtain s1 where
    loop: "reset_loop h cv (map snd (o_declarations s)) s = Returns s1"
    and s': "s' = s1\<lparr>o_compilerOptions := Map.empty\<rparr>" by blast
  have mem: "d \<in> set (map snd (o_declarations s))"
    using assms(2) by (auto simp: getDeclaration_def dest!: map_of_SomeD intro: rev_image_eqI)
  have uniq: "\<forall>d'\<in>set (map snd (o_declarations s)).
      d_scope (h d') \<noteq> Some TypeScript \<and> d_name (h d') = d_name (h d) \<longrightarrow> d' = d"
    using assms(4) by simp
  from reset_loop_stores [OF loop mem assms(3) uniq] obtain v where
    v: "cv (d_defaultValue (h d)) (h d) = Ok v" and stored: "o_values s1 (d_name (h d)) = Some v"
    by blast
  have "getDeclaration s' name = Some d"
    using assms(2) reset_loop_declarations [OF loop] by (simp add: getDeclaration_def s')
  then have "getValue h s' name = Inr v"
    using assms(3) stored by (simp add: getValue_def tryGetValue_def property_def s')
  with v show ?thesis by (auto simp: s')
qed

theorem reset_defaults_witness:
  "getValue ex_heap ex_foo_set ''Foo'' = Inr (JNumber (Finite 5)) \<and>
   getValue ex_heap (state_of (reset ex_heap ex_convert ex_foo_set)) ''Foo'' =
     Inr (JNumber (Finite 1)) \<and>
   o_compilerOptions (state_of (reset ex_heap ex_convert ex_foo_set)) = Map.empty"
proof -
  have before: "getValue ex_heap ex_foo_set ''Foo'' = Inr (JNumber (Finite 5))" by code_simp
  have returns: "reset ex_heap ex_convert ex_foo_set =
      Returns (state_of (reset ex_heap ex_convert ex_foo_set))"
    by (rule completion_collapse) (rule ex_foo_set_facts)
  have scope: "d_scope (ex_heap 10) \<noteq> Some TypeScript" by (simp add: ex_heap_simps)
  have unique: "\<forall>d'\<in>snd ` set (o_declarations ex_foo_set).
      d_scope (ex_heap d') \<noteq> Some TypeScript \<and> d_name (ex_heap d') = d_name (ex_heap 10) \<longrightarrow>
      d' = 10"
    by (simp add: ex_foo_set_facts ex_heap_simps)
  from reset_defaults [OF returns ex_foo_set_facts(1) scope unique] before
  show ?thesis by (simp add: ex_defaults)
qed

text \<open>
  The claim C4 as the spec states it, for every container, fails in the container reached by
  declaring \<open>Foo\<close> (default 1, short name \<open>f\<close>) and then a second object named \<open>Foo\<close> (default
  2, short name \<open>x\<close>), which is registered under \<open>x\<close> alone: \<open>reset\<close> returns, \<open>Foo\<close> is still the
  first declaration, and its value is 2.
\<close>

theorem reset_defaults_shared_name:
  "thrown (reset ex_heap ex_convert ex_conflict) = None \<and>
   getDeclaration (state_of (reset ex_heap ex_convert ex_conflict)) ''Foo'' = Some 10 \<and>
   d_scope (ex_heap 10) \<noteq> Some TypeScript \<and>
   ex_convert (d_defaultValue (ex_heap 10)) (ex_heap 10) = Ok (JNumber (Finite 1)) \<and>
   getValue ex_heap (state_of (reset ex_heap ex_convert ex_conflict)) ''Foo'' =
     Inr (JNumber (Finite 2))"
  by code_simp

section \<open>Removing a declaration\<close>

lemma removeDeclarationByName_declared:
  "getDeclaration s name = Some d \<Longrightarrow>
     map_of (o_declarations (removeDeclarationByName h name s)) =
       (if truthy (d_short (h d))
        then (map_of (o_declarations s))
               (toLowerCase (d_name (h d)) := None, toLowerCase (the (d_short (h d))) := None)
        else (map_of (o_declarations s))(toLowerCase (d_name (h d)) := None)) \<and>
     o_values (removeDeclarationByName h name s) = (o_values s)(d_name (h d) := None) \<and>
     o_compilerOptions (removeDeclarationByName h name s) = o_compilerOptions s"
  by (simp add: removeDeclarationByName_def Let_def delete_conv')

lemma removeDeclarationByName_unknown:
  "getDeclaration s name = None \<Longrightarrow> removeDeclarationByName h name s = s"
  by (simp add: removeDeclarationByName_def)

text \<open>
  C9. The option \<open>target\<close> has the TypeScript scope and is set to \<open>es5\<close>, which is stored in
  \<open>_compilerOptions\<close>. \<open>removeDeclarationByName\<close> removes the declaration and leaves that
  value where it is: it deletes from \<open>_values\<close> only.
\<close>

theorem removeDeclarationByName_keeps_compiler_option:
  "getDeclaration ex_target_set ''target'' = Some 11 \<and>
   d_scope (ex_heap 11) = Some TypeScript \<and>
   o_compilerOptions ex_target_set ''target'' = Some (JString ''es5'') \<and>
   getDeclaration (removeDeclarationByName ex_heap ''target'' ex_target_set) ''target'' = None \<and>
   o_compilerOptions (removeDeclarationByName ex_heap ''target'' ex_target_set) ''target'' =
     Some (JString ''es5'')"
  by code_simp

end
